theory Spec2Isabelle
  imports Complex_Main
begin

section \<open>Data model\<close>

text \<open>
  The service \<^verbatim>\<open>LiveSQLService\<close> reads three tables of a SQL Server database and
  recomputes stock and account balances from them. A calendar date is the number of its
  day (the source truncates every timestamp with \<^verbatim>\<open>.date()\<close> before it compares), and
  quantities and amounts are exact rationals: the arithmetic of the source is carried out
  without representation error.

  Each table is the list of its rows in the order in which the server returns them for
  the \<^verbatim>\<open>ORDER BY\<close> clause of the queries on that table (\<^verbatim>\<open>Name\<close> for
  \<^verbatim>\<open>Master1\<close>; \<^verbatim>\<open>Date, RecType\<close> for \<^verbatim>\<open>Tran2\<close>). A \<^verbatim>\<open>WHERE\<close> clause is a
  \<^const>\<open>filter\<close> of that list. The columns \<^verbatim>\<open>D1\<close>, \<^verbatim>\<open>D3\<close> and \<^verbatim>\<open>VchNo\<close> may be
  \<^verbatim>\<open>NULL\<close>; the source tests them for truthiness.
\<close>

type_synonym date = int

datatype error = ZeroDivisionError

record master_row =
  Code :: int
  Name :: string
  MasterType :: int

record folio_row =
  MasterCode :: int
  FolioMasterType :: int
  D1 :: "rat option"
  D3 :: "rat option"

record tran_row =
  MasterCode1 :: int
  Date :: date
  Value1 :: rat
  Value3 :: rat
  VchType :: int
  RecType :: int
  VchNo :: "string option"

record database =
  Master1 :: "master_row list"
  folio1 :: "folio_row list"
  Tran2 :: "tran_row list"

text \<open>\<^verbatim>\<open>cursor.fetchone()\<close>: the first row of a result, or \<^verbatim>\<open>None\<close>.\<close>

definition fetchone :: "'a list \<Rightarrow> 'a option" where
  "fetchone rows = (case rows of [] \<Rightarrow> None | r # _ \<Rightarrow> Some r)"

text \<open>An exception of the source ends the computation: \<open>Inl\<close> is propagated.\<close>

definition bind_err :: "error + 'a \<Rightarrow> ('a \<Rightarrow> error + 'b) \<Rightarrow> error + 'b" where
  "bind_err m f = (case m of Inl e \<Rightarrow> Inl e | Inr x \<Rightarrow> f x)"

text \<open>Python's \<^verbatim>\<open>a / b\<close> raises \<^verbatim>\<open>ZeroDivisionError\<close> when \<^verbatim>\<open>b\<close> is zero.\<close>

definition truediv :: "rat \<Rightarrow> rat \<Rightarrow> error + rat" where
  "truediv a b = (if b = 0 then Inl ZeroDivisionError else Inr (a / b))"

text \<open>\<^verbatim>\<open>(val / qty) if qty else 0\<close>, the only expression of the source that divides.\<close>

definition avg_rate_of :: "rat \<Rightarrow> rat \<Rightarrow> error + rat" where
  "avg_rate_of v q = (if q \<noteq> 0 then truediv v q else Inr 0)"

text \<open>
  \<^verbatim>\<open>round(x, 2)\<close>: the nearest multiple of 1/100, a tie going to the even neighbour.
\<close>

definition round_half_even :: "rat \<Rightarrow> int" where
  "round_half_even x =
     (let f = \<lfloor>x\<rfloor>; d = x - of_int f
      in if d < 1 / 2 then f else if 1 / 2 < d then f + 1
         else if even f then f else f + 1)"

definition round2 :: "rat \<Rightarrow> rat" where
  "round2 x = of_int (round_half_even (x * 100)) / 100"

section \<open>Closing stock report\<close>

record running =
  qty :: rat
  val :: rat
  avg_rate :: rat

record period_state = running +
  period_qty :: rat
  period_val :: rat

record item_totals =
  opening_qty :: rat
  opening_val :: rat
  tot_period_qty :: rat
  tot_period_val :: rat
  closing_qty :: rat
  closing_val :: rat

record stock_row =
  item_name :: string
  item_code :: int
  opening_quantity :: rat
  opening_value :: rat
  transaction_quantity :: rat
  transaction_value :: rat
  closing_quantity :: rat
  closing_value :: rat

text \<open>\<^verbatim>\<open>folio_row[0] if folio_row and folio_row[0] else 0\<close>\<close>

definition folio_value :: "folio_row option \<Rightarrow> (folio_row \<Rightarrow> rat option) \<Rightarrow> rat" where
  "folio_value folio_row col =
     (case folio_row of None \<Rightarrow> 0
      | Some r \<Rightarrow> (case col r of None \<Rightarrow> 0 | Some x \<Rightarrow> if x \<noteq> 0 then x else 0))"

definition folio_query :: "database \<Rightarrow> int \<Rightarrow> int \<Rightarrow> folio_row option" where
  "folio_query db code mtype =
     fetchone (filter (\<lambda>r. MasterCode r = code \<and> FolioMasterType r = mtype) (folio1 db))"

definition master_query :: "database \<Rightarrow> int \<Rightarrow> master_row list" where
  "master_query db mtype = filter (\<lambda>r. MasterType r = mtype) (Master1 db)"

text \<open>The transactions of an item, up to \<^verbatim>\<open>end_date\<close> when one is given.\<close>

definition tran_query :: "database \<Rightarrow> int \<Rightarrow> date option \<Rightarrow> tran_row list" where
  "tran_query db code end_date =
     filter (\<lambda>r. MasterCode1 r = code \<and>
                 (case end_date of None \<Rightarrow> True | Some e \<Rightarrow> Date r \<le> e)) (Tran2 db)"

text \<open>One transaction of the pass that advances the opening balance to \<^verbatim>\<open>start_date\<close>.\<close>

definition opening_step :: "running \<Rightarrow> tran_row \<Rightarrow> error + running" where
  "opening_step s txn =
     (if 0 < Value1 txn then
        (let qty' = qty s + Value1 txn; val' = val s + Value3 txn
         in bind_err (avg_rate_of val' qty')
              (\<lambda>r. Inr \<lparr>qty = qty', val = val', avg_rate = r\<rparr>))
      else if Value1 txn < 0 then
        (let sale_qty = \<bar>Value1 txn\<bar>;
             val' = val s - sale_qty * avg_rate s;
             qty' = qty s - sale_qty
         in bind_err (avg_rate_of val' qty')
              (\<lambda>r. Inr \<lparr>qty = qty', val = val', avg_rate = r\<rparr>))
      else Inr s)"

text \<open>The loop stops (\<^verbatim>\<open>break\<close>) at the first transaction dated on or after the start.\<close>

fun opening_loop :: "date \<Rightarrow> running \<Rightarrow> tran_row list \<Rightarrow> error + running" where
  "opening_loop start_date s [] = Inr s"
| "opening_loop start_date s (txn # txns) =
     (if start_date \<le> Date txn then Inr s
      else bind_err (opening_step s txn) (\<lambda>s'. opening_loop start_date s' txns))"

text \<open>
  One transaction of the pass over the period. In the sale branch the period value is
  reduced by \<^verbatim>\<open>sale_qty * avg_rate\<close> after \<^verbatim>\<open>avg_rate\<close> has been assigned again.
\<close>

definition period_step :: "period_state \<Rightarrow> tran_row \<Rightarrow> error + period_state" where
  "period_step s txn =
     (if 0 < Value1 txn then
        (let qty' = qty s + Value1 txn; val' = val s + Value3 txn
         in bind_err (avg_rate_of val' qty')
              (\<lambda>r. Inr \<lparr>qty = qty', val = val', avg_rate = r,
                         period_qty = period_qty s + Value1 txn,
                         period_val = period_val s + Value3 txn\<rparr>))
      else if Value1 txn < 0 then
        (let sale_qty = \<bar>Value1 txn\<bar>;
             val' = val s - sale_qty * avg_rate s;
             qty' = qty s - sale_qty
         in bind_err (avg_rate_of val' qty')
              (\<lambda>r. Inr \<lparr>qty = qty', val = val', avg_rate = r,
                         period_qty = period_qty s + Value1 txn,
                         period_val = period_val s - sale_qty * r\<rparr>))
      else Inr s)"

text \<open>\<^verbatim>\<open>start_date and txn_date < start_date\<close>, \<^verbatim>\<open>end_date and txn_date > end_date\<close>\<close>

definition before_start :: "date option \<Rightarrow> tran_row \<Rightarrow> bool" where
  "before_start start_date txn =
     (case start_date of None \<Rightarrow> False | Some sd \<Rightarrow> Date txn < sd)"

definition after_end :: "date option \<Rightarrow> tran_row \<Rightarrow> bool" where
  "after_end end_date txn =
     (case end_date of None \<Rightarrow> False | Some ed \<Rightarrow> ed < Date txn)"

fun period_loop ::
  "date option \<Rightarrow> date option \<Rightarrow> period_state \<Rightarrow> tran_row list \<Rightarrow> error + period_state"
where
  "period_loop start_date end_date s [] = Inr s"
| "period_loop start_date end_date s (txn # txns) =
     (if before_start start_date txn then period_loop start_date end_date s txns
      else if after_end end_date txn then period_loop start_date end_date s txns
      else bind_err (period_step s txn) (\<lambda>s'. period_loop start_date end_date s' txns))"

text \<open>The opening balance of the period: the stored one, advanced when a start is given.\<close>

definition opening_balance_as_of ::
  "date option \<Rightarrow> rat \<Rightarrow> rat \<Rightarrow> tran_row list \<Rightarrow> error + rat \<times> rat" where
  "opening_balance_as_of start_date oq ov transactions =
     (case start_date of
        None \<Rightarrow> Inr (oq, ov)
      | Some sd \<Rightarrow>
          bind_err (avg_rate_of ov oq)
            (\<lambda>r. bind_err (opening_loop sd \<lparr>qty = oq, val = ov, avg_rate = r\<rparr> transactions)
              (\<lambda>s. Inr (qty s, val s))))"

text \<open>The body of the loop over the items, up to the closing quantity and value.\<close>

definition stock_item ::
  "date option \<Rightarrow> date option \<Rightarrow> rat \<Rightarrow> rat \<Rightarrow> tran_row list \<Rightarrow> error + item_totals"
where
  "stock_item start_date end_date oq ov transactions =
     bind_err (opening_balance_as_of start_date oq ov transactions)
       (\<lambda>(oq', ov').
          bind_err (avg_rate_of ov' oq')
            (\<lambda>r. bind_err
               (period_loop start_date end_date
                  \<lparr>qty = oq', val = ov', avg_rate = r, period_qty = 0, period_val = 0\<rparr>
                  transactions)
               (\<lambda>s. Inr \<lparr>opening_qty = oq', opening_val = ov',
                          tot_period_qty = period_qty s, tot_period_val = period_val s,
                          closing_qty = qty s, closing_val = val s\<rparr>)))"

text \<open>The row of an item: every reported field is rounded here, and only here.\<close>

definition stock_row_of :: "master_row \<Rightarrow> item_totals \<Rightarrow> stock_row" where
  "stock_row_of item t =
     \<lparr>item_name = Name item, item_code = Code item,
      opening_quantity = round2 (opening_qty t),
      opening_value = round2 (opening_val t),
      transaction_quantity = round2 (tot_period_qty t),
      transaction_value = round2 (tot_period_val t),
      closing_quantity = round2 (closing_qty t),
      closing_value = round2 (closing_val t)\<rparr>"

text \<open>\<^verbatim>\<open>if not hide_zero_balance or closing_qty != 0: results.append(...)\<close>\<close>

definition stock_rows :: "bool \<Rightarrow> master_row \<Rightarrow> item_totals \<Rightarrow> stock_row list" where
  "stock_rows hide_zero_balance item t =
     (if \<not> hide_zero_balance \<or> closing_qty t \<noteq> 0 then [stock_row_of item t] else [])"

definition stock_item_of ::
  "database \<Rightarrow> date option \<Rightarrow> date option \<Rightarrow> master_row \<Rightarrow> error + item_totals" where
  "stock_item_of db start_date end_date item =
     (let folio_row = folio_query db (Code item) 6
      in stock_item start_date end_date (folio_value folio_row D1) (folio_value folio_row D3)
           (tran_query db (Code item) end_date))"

fun stock_report_loop ::
  "database \<Rightarrow> date option \<Rightarrow> date option \<Rightarrow> bool \<Rightarrow> master_row list \<Rightarrow> error + stock_row list"
where
  "stock_report_loop db start_date end_date hide [] = Inr []"
| "stock_report_loop db start_date end_date hide (item # items) =
     bind_err (stock_item_of db start_date end_date item)
       (\<lambda>t. bind_err (stock_report_loop db start_date end_date hide items)
          (\<lambda>rest. Inr (stock_rows hide item t @ rest)))"

definition get_closing_stock_live ::
  "database \<Rightarrow> date option \<Rightarrow> date option \<Rightarrow> bool \<Rightarrow> error + stock_row list" where
  "get_closing_stock_live db start_date end_date hide_zero_balance =
     stock_report_loop db start_date end_date hide_zero_balance (master_query db 6)"

section \<open>Closing balance report\<close>

record balance_row =
  account_name :: string
  account_code :: int
  opening_balance :: rat
  transaction_amount :: rat
  closing_balance :: rat

text \<open>\<^verbatim>\<open>SELECT SUM(Value1)\<close> is \<^verbatim>\<open>NULL\<close> over no rows; \<^verbatim>\<open>cursor.fetchone()[0] or 0\<close>.\<close>

definition sql_sum :: "rat list \<Rightarrow> rat option" where
  "sql_sum xs = (if xs = [] then None else Some (sum_list xs))"

definition or_zero :: "rat option \<Rightarrow> rat" where
  "or_zero x = (case x of None \<Rightarrow> 0 | Some y \<Rightarrow> if y \<noteq> 0 then y else 0)"

definition sum_value1 :: "database \<Rightarrow> int \<Rightarrow> (date \<Rightarrow> bool) \<Rightarrow> rat" where
  "sum_value1 db code cond =
     or_zero (sql_sum (map Value1
       (filter (\<lambda>r. MasterCode1 r = code \<and> cond (Date r)) (Tran2 db))))"

definition balance_rows ::
  "database \<Rightarrow> date option \<Rightarrow> date option \<Rightarrow> master_row \<Rightarrow> balance_row list" where
  "balance_rows db start_date end_date item =
     (let base_opening_balance = folio_value (folio_query db (Code item) 2) D1;
          opening_balance =
            (case start_date of
               Some sd \<Rightarrow>
                 round2 (base_opening_balance + sum_value1 db (Code item) (\<lambda>d. d < sd))
             | None \<Rightarrow> base_opening_balance);
          closing_balance =
            (case end_date of
               Some ed \<Rightarrow>
                 round2 (base_opening_balance + sum_value1 db (Code item) (\<lambda>d. d \<le> ed))
             | None \<Rightarrow>
                 round2 (base_opening_balance + sum_value1 db (Code item) (\<lambda>d. True)));
          period_amount =
            sum_value1 db (Code item)
              (\<lambda>d. (case start_date of None \<Rightarrow> True | Some sd \<Rightarrow> sd \<le> d) \<and>
                    (case end_date of None \<Rightarrow> True | Some ed \<Rightarrow> d \<le> ed));
          total_value = \<bar>opening_balance\<bar> + \<bar>period_amount\<bar> + \<bar>closing_balance\<bar>
      in if 0 < total_value then
           [\<lparr>account_name = Name item, account_code = Code item,
             opening_balance = opening_balance,
             transaction_amount = period_amount,
             closing_balance = closing_balance\<rparr>]
         else [])"

definition get_closing_balance_live ::
  "database \<Rightarrow> date option \<Rightarrow> date option \<Rightarrow> balance_row list" where
  "get_closing_balance_live db start_date end_date =
     concat (map (balance_rows db start_date end_date) (master_query db 2))"

section \<open>Stock ledger of one item\<close>

text \<open>
  The voucher label and the description of a row are formatted strings in the source;
  here they are kept as the data they are formatted from.
\<close>

datatype voucher_label = OpeningBalance | Voucher string | Synthetic nat

datatype description = OpeningDescription "date option" | VoucherDescription int int

record ledger_row =
  sno :: nat
  row_date :: date
  vchno :: voucher_label
  opamount :: rat
  opqty :: rat
  qtyin :: rat
  qtyout :: rat
  closingqty :: rat
  closingamt :: rat
  description :: description

text \<open>The rows of the period: the two \<^verbatim>\<open>continue\<close> tests of the filtering loop.\<close>

definition in_window :: "date option \<Rightarrow> date option \<Rightarrow> tran_row \<Rightarrow> bool" where
  "in_window start_date end_date txn =
     (\<not> before_start start_date txn \<and> \<not> after_end end_date txn)"

text \<open>
  One transaction of the ledger. Every transaction that is not a purchase takes the
  \<^verbatim>\<open>else\<close> branch, which leaves \<^verbatim>\<open>avg_rate\<close> as it is.
\<close>

definition ledger_step :: "running \<Rightarrow> tran_row \<Rightarrow> error + running" where
  "ledger_step s txn =
     (if 0 < Value1 txn then
        (let running_qty = qty s + Value1 txn; running_val = val s + Value3 txn
         in bind_err (avg_rate_of running_val running_qty)
              (\<lambda>r. Inr \<lparr>qty = running_qty, val = running_val, avg_rate = r\<rparr>))
      else
        (let sale_qty = \<bar>Value1 txn\<bar>;
             running_val = val s - sale_qty * avg_rate s;
             running_qty = qty s - sale_qty
         in Inr \<lparr>qty = running_qty, val = running_val, avg_rate = avg_rate s\<rparr>))"

definition txn_row :: "nat \<Rightarrow> running \<Rightarrow> running \<Rightarrow> tran_row \<Rightarrow> ledger_row" where
  "txn_row idx s s' txn =
     \<lparr>sno = idx, row_date = Date txn,
      vchno = (case VchNo txn of
                 None \<Rightarrow> Synthetic idx
               | Some v \<Rightarrow> if v \<noteq> [] then Voucher v else Synthetic idx),
      opamount = round2 (val s), opqty = round2 (qty s),
      qtyin = round2 (if 0 < Value1 txn then Value1 txn else 0),
      qtyout = round2 (if 0 < Value1 txn then 0 else \<bar>Value1 txn\<bar>),
      closingqty = round2 (qty s'), closingamt = round2 (val s'),
      description = VoucherDescription (VchType txn) (RecType txn)\<rparr>"

fun ledger_loop :: "nat \<Rightarrow> running \<Rightarrow> tran_row list \<Rightarrow> error + ledger_row list" where
  "ledger_loop idx s [] = Inr []"
| "ledger_loop idx s (txn # txns) =
     bind_err (ledger_step s txn)
       (\<lambda>s'. bind_err (ledger_loop (idx + 1) s' txns)
          (\<lambda>rest. Inr (txn_row idx s s' txn # rest)))"

definition opening_rows ::
  "date \<Rightarrow> date option \<Rightarrow> rat \<Rightarrow> rat \<Rightarrow> tran_row list \<Rightarrow> ledger_row list" where
  "opening_rows today start_date oq ov transactions =
     (if 0 < oq \<or> 0 < ov then
        [\<lparr>sno = 0,
          row_date = (case start_date of
                        Some sd \<Rightarrow> sd
                      | None \<Rightarrow> (case transactions of [] \<Rightarrow> today | txn # _ \<Rightarrow> Date txn)),
          vchno = OpeningBalance, opamount = 0, opqty = 0, qtyin = oq, qtyout = 0,
          closingqty = oq, closingamt = ov,
          description = OpeningDescription start_date\<rparr>]
      else [])"

text \<open>
  \<^verbatim>\<open>get_stock_ledger_live\<close>; \<open>today\<close> is \<^verbatim>\<open>datetime.now().date()\<close>. The pass that
  advances the opening balance repeats the one of the stock report line by line.
\<close>

definition get_stock_ledger_live ::
  "date \<Rightarrow> database \<Rightarrow> int \<Rightarrow> date option \<Rightarrow> date option \<Rightarrow> error + ledger_row list"
where
  "get_stock_ledger_live today db master_code start_date end_date =
     (case fetchone (filter (\<lambda>r. Code r = master_code \<and> MasterType r = 6) (Master1 db)) of
        None \<Rightarrow> Inr []
      | Some master_row \<Rightarrow>
          (let folio_row = folio_query db master_code 6;
               all_transactions = tran_query db master_code None
           in bind_err
                (opening_balance_as_of start_date (folio_value folio_row D1)
                   (folio_value folio_row D3) all_transactions)
                (\<lambda>(oq, ov).
                   (let transactions = filter (in_window start_date end_date) all_transactions
                    in bind_err (avg_rate_of ov oq)
                         (\<lambda>r. bind_err
                            (ledger_loop 1 \<lparr>qty = oq, val = ov, avg_rate = r\<rparr> transactions)
                            (\<lambda>rows.
                               Inr (opening_rows today start_date oq ov transactions
                                    @ rows)))))))"

section \<open>Results of the steps and loops\<close>

text \<open>
  No step and no loop of the replay raises (shown below), so each has a result; these
  names stand for it.
\<close>


definition opening_next :: "running \<Rightarrow> tran_row \<Rightarrow> running" where
  "opening_next s txn = projr (opening_step s txn)"

definition period_next :: "period_state \<Rightarrow> tran_row \<Rightarrow> period_state" where
  "period_next s txn = projr (period_step s txn)"

definition ledger_next :: "running \<Rightarrow> tran_row \<Rightarrow> running" where
  "ledger_next s txn = projr (ledger_step s txn)"

definition opening_run :: "date \<Rightarrow> running \<Rightarrow> tran_row list \<Rightarrow> running" where
  "opening_run start_date s txns = projr (opening_loop start_date s txns)"

definition period_run ::
  "date option \<Rightarrow> date option \<Rightarrow> period_state \<Rightarrow> tran_row list \<Rightarrow> period_state" where
  "period_run start_date end_date s txns = projr (period_loop start_date end_date s txns)"

definition rate :: "rat \<Rightarrow> rat \<Rightarrow> rat" where
  "rate v q = (if q = 0 then 0 else v / q)"

text \<open>The totals of an item of the catalog.\<close>

definition totals_of :: "database \<Rightarrow> date option \<Rightarrow> date option \<Rightarrow> master_row \<Rightarrow> item_totals" where
  "totals_of db start_date end_date item = projr (stock_item_of db start_date end_date item)"

text \<open>
  The part of the state of the pass over the period that the pass before the start has
  too, and the relation that holds between its three components after every assignment
  of \<^verbatim>\<open>avg_rate\<close>.
\<close>

definition core :: "period_state \<Rightarrow> running" where
  "core p = \<lparr>qty = qty p, val = val p, avg_rate = avg_rate p\<rparr>"

definition rate_ok :: "running \<Rightarrow> bool" where
  "rate_ok s = (avg_rate s = rate (val s) (qty s))"

section \<open>Example inputs\<close>

definition txn_of :: "date \<Rightarrow> rat \<Rightarrow> rat \<Rightarrow> tran_row" where
  "txn_of d q a =
     \<lparr>MasterCode1 = 1, Date = d, Value1 = q, Value3 = a, VchType = 0, RecType = 0,
      VchNo = None\<rparr>"

definition stock_of :: "rat \<Rightarrow> rat \<Rightarrow> running" where
  "stock_of q v = \<lparr>qty = q, val = v, avg_rate = v / q\<rparr>"

definition stock_period_of :: "rat \<Rightarrow> rat \<Rightarrow> period_state" where
  "stock_period_of q v =
     \<lparr>qty = q, val = v, avg_rate = v / q, period_qty = 0, period_val = 0\<rparr>"

definition db_one_item :: "rat option \<Rightarrow> rat option \<Rightarrow> tran_row list \<Rightarrow> database" where
  "db_one_item d1 d3 txns =
     \<lparr>Master1 = [\<lparr>Code = 1, Name = ''Widget'', MasterType = 6\<rparr>],
      folio1 = [\<lparr>MasterCode = 1, FolioMasterType = 6, D1 = d1, D3 = d3\<rparr>],
      Tran2 = txns\<rparr>"

definition db_one_account :: "rat option \<Rightarrow> tran_row list \<Rightarrow> database" where
  "db_one_account d1 txns =
     \<lparr>Master1 = [\<lparr>Code = 1, Name = ''Cash'', MasterType = 2\<rparr>],
      folio1 = [\<lparr>MasterCode = 1, FolioMasterType = 2, D1 = d1, D3 = None\<rparr>],
      Tran2 = txns\<rparr>"

section \<open>The replay is total\<close>

lemma bind_err_Inr [simp]: "bind_err (Inr x) f = f x"
  by (simp add: bind_err_def)

lemma bind_err_Inl [simp]: "bind_err (Inl e) f = Inl e"
  by (simp add: bind_err_def)

lemma avg_rate_of_Inr: "avg_rate_of v q = Inr (rate v q)"
  by (simp add: avg_rate_of_def truediv_def rate_def)

lemma opening_step_Inr: "opening_step s txn = Inr (opening_next s txn)"
  by (simp add: opening_next_def opening_step_def avg_rate_of_Inr Let_def)

lemma period_step_Inr: "period_step s txn = Inr (period_next s txn)"
  by (simp add: period_next_def period_step_def avg_rate_of_Inr Let_def)

lemma ledger_step_Inr: "ledger_step s txn = Inr (ledger_next s txn)"
  by (simp add: ledger_next_def ledger_step_def avg_rate_of_Inr Let_def)

lemma opening_loop_Inr: "opening_loop d s txns = Inr (opening_run d s txns)"
proof (induction txns arbitrary: s)
  case Nil
  show ?case by (simp add: opening_run_def)
next
  case (Cons txn txns)
  show ?case
    using Cons.IH [of "opening_next s txn"]
    by (simp add: opening_run_def opening_step_Inr)
qed

lemma period_loop_Inr: "period_loop sd ed s txns = Inr (period_run sd ed s txns)"
proof (induction txns arbitrary: s)
  case Nil
  show ?case by (simp add: period_run_def)
next
  case (Cons txn txns)
  show ?case
    using Cons.IH [of "period_next s txn"] Cons.IH [of s]
    by (simp add: period_run_def period_step_Inr)
qed

lemma ledger_loop_Inr: "\<exists>rows. ledger_loop idx s txns = Inr rows"
proof (induction txns arbitrary: idx s)
  case Nil
  show ?case by simp
next
  case (Cons txn txns)
  obtain rows where "ledger_loop (idx + 1) (ledger_next s txn) txns = Inr rows"
    using Cons.IH by blast
  then show ?case by (simp add: ledger_step_Inr)
qed

lemma opening_balance_as_of_Inr:
  "opening_balance_as_of sd oq ov txns =
     Inr (case sd of None \<Rightarrow> (oq, ov)
          | Some d \<Rightarrow> (qty (opening_run d \<lparr>qty = oq, val = ov, avg_rate = rate ov oq\<rparr> txns),
                       val (opening_run d \<lparr>qty = oq, val = ov, avg_rate = rate ov oq\<rparr> txns)))"
  by (simp add: opening_balance_as_of_def avg_rate_of_Inr opening_loop_Inr split: option.splits)

lemma stock_item_Inr: "\<exists>t. stock_item sd ed oq ov txns = Inr t"
  by (simp add: stock_item_def opening_balance_as_of_Inr avg_rate_of_Inr period_loop_Inr
      split: option.splits)

lemma stock_report_loop_Inr: "\<exists>rows. stock_report_loop db sd ed hide items = Inr rows"
proof (induction items)
  case Nil
  show ?case by simp
next
  case (Cons item items)
  have "\<exists>t. stock_item_of db sd ed item = Inr t"
    unfolding stock_item_of_def Let_def by (rule stock_item_Inr)
  then obtain t where t: "stock_item_of db sd ed item = Inr t" ..
  obtain rest where "stock_report_loop db sd ed hide items = Inr rest"
    using Cons.IH by blast
  with t show ?case by simp
qed

lemma opening_balance_as_of_ex:
  "\<exists>oq' ov'. opening_balance_as_of sd oq ov txns = Inr (oq', ov')"
  by (simp add: opening_balance_as_of_Inr split: option.splits)

lemma ledger_Inr: "\<exists>rows. get_stock_ledger_live today db c sd ed = Inr rows"
proof (cases "fetchone (filter (\<lambda>r. Code r = c \<and> MasterType r = 6) (Master1 db))")
  case None
  then show ?thesis by (simp add: get_stock_ledger_live_def)
next
  case (Some m)
  obtain oq ov where o: "opening_balance_as_of sd (folio_value (folio_query db c 6) D1)
      (folio_value (folio_query db c 6) D3) (tran_query db c None) = Inr (oq, ov)"
    using opening_balance_as_of_ex by blast
  obtain rows where "ledger_loop 1 \<lparr>qty = oq, val = ov, avg_rate = rate ov oq\<rparr>
      (filter (in_window sd ed) (tran_query db c None)) = Inr rows"
    using ledger_loop_Inr by blast
  with Some o show ?thesis
    by (simp add: get_stock_ledger_live_def Let_def avg_rate_of_Inr)
qed

lemma opening_next_eq:
  "opening_next s txn =
     (if 0 < Value1 txn then
        \<lparr>qty = qty s + Value1 txn, val = val s + Value3 txn,
         avg_rate = rate (val s + Value3 txn) (qty s + Value1 txn)\<rparr>
      else if Value1 txn < 0 then
        \<lparr>qty = qty s - \<bar>Value1 txn\<bar>, val = val s - \<bar>Value1 txn\<bar> * avg_rate s,
         avg_rate = rate (val s - \<bar>Value1 txn\<bar> * avg_rate s) (qty s - \<bar>Value1 txn\<bar>)\<rparr>
      else s)"
  by (simp add: opening_next_def opening_step_def avg_rate_of_Inr Let_def)

lemma period_next_eq:
  "period_next s txn =
     (if 0 < Value1 txn then
        \<lparr>qty = qty s + Value1 txn, val = val s + Value3 txn,
         avg_rate = rate (val s + Value3 txn) (qty s + Value1 txn),
         period_qty = period_qty s + Value1 txn, period_val = period_val s + Value3 txn\<rparr>
      else if Value1 txn < 0 then
        \<lparr>qty = qty s - \<bar>Value1 txn\<bar>, val = val s - \<bar>Value1 txn\<bar> * avg_rate s,
         avg_rate = rate (val s - \<bar>Value1 txn\<bar> * avg_rate s) (qty s - \<bar>Value1 txn\<bar>),
         period_qty = period_qty s + Value1 txn,
         period_val = period_val s - \<bar>Value1 txn\<bar> *
           rate (val s - \<bar>Value1 txn\<bar> * avg_rate s) (qty s - \<bar>Value1 txn\<bar>)\<rparr>
      else s)"
  by (simp add: period_next_def period_step_def avg_rate_of_Inr Let_def)

lemma ledger_next_eq:
  "ledger_next s txn =
     (if 0 < Value1 txn then
        \<lparr>qty = qty s + Value1 txn, val = val s + Value3 txn,
         avg_rate = rate (val s + Value3 txn) (qty s + Value1 txn)\<rparr>
      else
        \<lparr>qty = qty s - \<bar>Value1 txn\<bar>, val = val s - \<bar>Value1 txn\<bar> * avg_rate s,
         avg_rate = avg_rate s\<rparr>)"
  by (simp add: ledger_next_def ledger_step_def avg_rate_of_Inr Let_def)

lemma opening_run_Nil [simp]: "opening_run d s [] = s"
  by (simp add: opening_run_def)

lemma opening_run_Cons [simp]:
  "opening_run d s (txn # txns) =
     (if d \<le> Date txn then s else opening_run d (opening_next s txn) txns)"
  by (simp add: opening_run_def opening_step_Inr)

lemma period_run_Nil [simp]: "period_run sd ed s [] = s"
  by (simp add: period_run_def)

lemma period_run_Cons [simp]:
  "period_run sd ed s (txn # txns) =
     (if before_start sd txn \<or> after_end ed txn then period_run sd ed s txns
      else period_run sd ed (period_next s txn) txns)"
  by (simp add: period_run_def period_step_Inr)

text \<open>An outflow that leaves a nonzero quantity keeps the rate value / quantity.\<close>

lemma rate_after_outflow:
  assumes "q \<noteq> 0" and "q - k \<noteq> 0"
  shows "rate (v - k * (v / q)) (q - k) = v / q"
proof -
  have "v - k * (v / q) = (v / q) * (q - k)"
    using assms(1) by (simp add: field_simps)
  then show ?thesis
    using assms(2) by (simp add: rate_def)
qed

lemma opening_outflow:
  assumes "Value1 txn < 0" and "qty s \<noteq> 0" and "avg_rate s = val s / qty s"
  shows "opening_step s txn = Inr (opening_next s txn) \<and>
         val (opening_next s txn) = val s - \<bar>Value1 txn\<bar> * avg_rate s \<and>
         qty (opening_next s txn) = qty s - \<bar>Value1 txn\<bar> \<and>
         avg_rate (opening_next s txn) =
           (if qty (opening_next s txn) = 0 then 0 else avg_rate s)"
proof -
  have "rate (val s - \<bar>Value1 txn\<bar> * avg_rate s) (qty s - \<bar>Value1 txn\<bar>) =
      (if qty s - \<bar>Value1 txn\<bar> = 0 then 0 else avg_rate s)"
    using rate_after_outflow [OF assms(2), of "\<bar>Value1 txn\<bar>" "val s"] assms(3)
    by (simp add: rate_def)
  then show ?thesis
    using assms(1) by (simp add: opening_step_Inr opening_next_eq)
qed

lemma period_outflow:
  assumes "Value1 txn < 0" and "qty p \<noteq> 0" and "avg_rate p = val p / qty p"
  shows "period_step p txn = Inr (period_next p txn) \<and>
         val (period_next p txn) = val p - \<bar>Value1 txn\<bar> * avg_rate p \<and>
         qty (period_next p txn) = qty p - \<bar>Value1 txn\<bar> \<and>
         avg_rate (period_next p txn) =
           (if qty (period_next p txn) = 0 then 0 else avg_rate p)"
proof -
  have "rate (val p - \<bar>Value1 txn\<bar> * avg_rate p) (qty p - \<bar>Value1 txn\<bar>) =
      (if qty p - \<bar>Value1 txn\<bar> = 0 then 0 else avg_rate p)"
    using rate_after_outflow [OF assms(2), of "\<bar>Value1 txn\<bar>" "val p"] assms(3)
    by (simp add: rate_def)
  then show ?thesis
    using assms(1) by (simp add: period_step_Inr period_next_eq)
qed

lemma ledger_outflow:
  assumes "Value1 txn < 0" and "qty s \<noteq> 0" and "avg_rate s = val s / qty s"
  shows "ledger_step s txn = Inr (ledger_next s txn) \<and>
         val (ledger_next s txn) = val s - \<bar>Value1 txn\<bar> * avg_rate s \<and>
         qty (ledger_next s txn) = qty s - \<bar>Value1 txn\<bar> \<and>
         avg_rate (ledger_next s txn) = avg_rate s \<and>
         (qty (ledger_next s txn) \<noteq> 0 \<longrightarrow>
            val (ledger_next s txn) / qty (ledger_next s txn) = avg_rate s)"
proof -
  have "qty s - \<bar>Value1 txn\<bar> \<noteq> 0 \<longrightarrow>
      (val s - \<bar>Value1 txn\<bar> * avg_rate s) / (qty s - \<bar>Value1 txn\<bar>) = avg_rate s"
    using rate_after_outflow [OF assms(2), of "\<bar>Value1 txn\<bar>" "val s"] assms(3)
    by (simp add: rate_def)
  moreover have "\<not> 0 < Value1 txn"
    using assms(1) by simp
  ultimately show ?thesis
    by (simp add: ledger_step_Inr ledger_next_eq)
qed

section \<open>Division by zero\<close>

text \<open>
  C10. Every computation of \<^verbatim>\<open>avg_rate\<close> is the guarded expression
  \<^const>\<open>avg_rate_of\<close>, which yields 0 when the quantity is 0 and value / quantity
  otherwise. No replay divides by zero: the pass before the start, the pass over the
  period, the ledger loop, one item of the stock report, the whole stock report and the
  whole ledger all return a result, for every opening balance, every sequence of
  transactions and every window.
\<close>

theorem no_division_by_zero:
  "avg_rate_of v q = Inr (if q = 0 then 0 else v / q) \<and>
   (\<exists>s'. opening_loop d s txns = Inr s') \<and>
   (\<exists>p'. period_loop sd ed p txns = Inr p') \<and>
   (\<exists>rows. ledger_loop idx s txns = Inr rows) \<and>
   (\<exists>t. stock_item sd ed oq ov txns = Inr t) \<and>
   (\<exists>rows. get_closing_stock_live db sd ed hide = Inr rows) \<and>
   (\<exists>rows. get_stock_ledger_live today db c sd ed = Inr rows)"
  using ledger_loop_Inr [of idx s txns] stock_item_Inr [of sd ed oq ov txns]
    stock_report_loop_Inr [of db sd ed hide "master_query db 6"]
    ledger_Inr [of today db c sd ed]
  by (simp add: avg_rate_of_Inr rate_def opening_loop_Inr period_loop_Inr
      get_closing_stock_live_def)

section \<open>An outflow keeps the average rate\<close>

text \<open>
  C4. Under exact arithmetic, a single outflow applied to a running balance whose
  \<^verbatim>\<open>avg_rate\<close> is value / quantity (the quantity being nonzero, so that the quotient
  exists) is valued at the rate in force before it, and leaves the rate unchanged unless
  it brings the quantity to 0, where the recomputed rate is 0. This holds for the step of
  the pass before the start and for the step of the pass over the period. The step of the
  ledger does not assign the rate at all; there the kept rate is again value / quantity
  of the new balance whenever the new quantity is nonzero.
\<close>

theorem outflow_keeps_rate:
  assumes "Value1 txn < 0" and "qty s \<noteq> 0" and "avg_rate s = val s / qty s"
    and "qty p \<noteq> 0" and "avg_rate p = val p / qty p"
  shows "(\<exists>s'. opening_step s txn = Inr s' \<and>
            val s' = val s - \<bar>Value1 txn\<bar> * avg_rate s \<and>
            qty s' = qty s - \<bar>Value1 txn\<bar> \<and>
            avg_rate s' = (if qty s' = 0 then 0 else avg_rate s)) \<and>
         (\<exists>p'. period_step p txn = Inr p' \<and>
            val p' = val p - \<bar>Value1 txn\<bar> * avg_rate p \<and>
            qty p' = qty p - \<bar>Value1 txn\<bar> \<and>
            avg_rate p' = (if qty p' = 0 then 0 else avg_rate p)) \<and>
         (\<exists>s'. ledger_step s txn = Inr s' \<and>
            val s' = val s - \<bar>Value1 txn\<bar> * avg_rate s \<and>
            qty s' = qty s - \<bar>Value1 txn\<bar> \<and>
            avg_rate s' = avg_rate s \<and>
            (qty s' \<noteq> 0 \<longrightarrow> val s' / qty s' = avg_rate s))"
proof (intro conjI)
  show "\<exists>s'. opening_step s txn = Inr s' \<and>
            val s' = val s - \<bar>Value1 txn\<bar> * avg_rate s \<and>
            qty s' = qty s - \<bar>Value1 txn\<bar> \<and>
            avg_rate s' = (if qty s' = 0 then 0 else avg_rate s)"
    using opening_outflow [OF assms(1,2,3)] by (rule exI)
  show "\<exists>p'. period_step p txn = Inr p' \<and>
            val p' = val p - \<bar>Value1 txn\<bar> * avg_rate p \<and>
            qty p' = qty p - \<bar>Value1 txn\<bar> \<and>
            avg_rate p' = (if qty p' = 0 then 0 else avg_rate p)"
    using period_outflow [OF assms(1,4,5)] by (rule exI)
  show "\<exists>s'. ledger_step s txn = Inr s' \<and>
            val s' = val s - \<bar>Value1 txn\<bar> * avg_rate s \<and>
            qty s' = qty s - \<bar>Value1 txn\<bar> \<and>
            avg_rate s' = avg_rate s \<and>
            (qty s' \<noteq> 0 \<longrightarrow> val s' / qty s' = avg_rate s)"
    using ledger_outflow [OF assms(1,2,3)] by (rule exI)
qed

theorem outflow_keeps_rate_witness:
  "Value1 (txn_of 1 (- 4) 0) < 0 \<and> qty (stock_of 10 100) \<noteq> 0 \<and>
   avg_rate (stock_of 10 100) = val (stock_of 10 100) / qty (stock_of 10 100) \<and>
   qty (stock_period_of 10 100) \<noteq> 0 \<and>
   avg_rate (stock_period_of 10 100) =
     val (stock_period_of 10 100) / qty (stock_period_of 10 100) \<and>
   (\<exists>s'. opening_step (stock_of 10 100) (txn_of 1 (- 4) 0) = Inr s' \<and>
      val s' = 60 \<and> qty s' = 6 \<and> avg_rate s' = 10) \<and>
   (\<exists>p'. period_step (stock_period_of 10 100) (txn_of 1 (- 4) 0) = Inr p' \<and>
      val p' = 60 \<and> qty p' = 6 \<and> avg_rate p' = 10) \<and>
   (\<exists>s'. ledger_step (stock_of 10 100) (txn_of 1 (- 4) 0) = Inr s' \<and>
      val s' = 60 \<and> qty s' = 6 \<and> avg_rate s' = 10)"
proof -
  have h1: "Value1 (txn_of 1 (- 4) 0) < 0"
    by (simp add: txn_of_def)
  have h2: "qty (stock_of 10 100) \<noteq> 0"
    by (simp add: stock_of_def)
  have h3: "avg_rate (stock_of 10 100) = val (stock_of 10 100) / qty (stock_of 10 100)"
    by (simp add: stock_of_def)
  have h4: "qty (stock_period_of 10 100) \<noteq> 0"
    by (simp add: stock_period_of_def)
  have h5: "avg_rate (stock_period_of 10 100) =
      val (stock_period_of 10 100) / qty (stock_period_of 10 100)"
    by (simp add: stock_period_of_def)
  have v: "\<bar>Value1 (txn_of 1 (- 4) 0)\<bar> = 4" "qty (stock_of 10 100) = 10"
    "val (stock_of 10 100) = 100" "avg_rate (stock_of 10 100) = 10"
    "qty (stock_period_of 10 100) = 10" "val (stock_period_of 10 100) = 100"
    "avg_rate (stock_period_of 10 100) = 10"
    by (simp_all add: txn_of_def stock_of_def stock_period_of_def)
  show ?thesis
    using outflow_keeps_rate [OF h1 h2 h3 h4 h5] h1 h2 h3 h4 h5
    unfolding v by auto
qed

section \<open>The scenario of the specification\<close>

text \<open>
  C1. From the opening balance quantity 0, value 0, with no window bounds, the
  transactions (d1, +10, 100), (d2, -4, a), (d3, +5, 60) give: after d1 the average rate
  10; after d2 the value 100 - 4 * 10 = 60 with quantity 6; after d3 quantity 11 and
  value 120 (rate 120/11), which is the closing balance of the item. The amount \<open>a\<close> of
  the sale and the three dates are arbitrary.
\<close>

theorem concrete_scenario:
  "period_loop None None
     \<lparr>qty = 0, val = 0, avg_rate = 0, period_qty = 0, period_val = 0\<rparr>
     [txn_of d1 10 100] =
     Inr \<lparr>qty = 10, val = 100, avg_rate = 10, period_qty = 10, period_val = 100\<rparr> \<and>
   period_loop None None
     \<lparr>qty = 0, val = 0, avg_rate = 0, period_qty = 0, period_val = 0\<rparr>
     [txn_of d1 10 100, txn_of d2 (- 4) a] =
     Inr \<lparr>qty = 6, val = 100 - 4 * 10, avg_rate = 10, period_qty = 6, period_val = 60\<rparr> \<and>
   period_loop None None
     \<lparr>qty = 0, val = 0, avg_rate = 0, period_qty = 0, period_val = 0\<rparr>
     [txn_of d1 10 100, txn_of d2 (- 4) a, txn_of d3 5 60] =
     Inr \<lparr>qty = 11, val = 120, avg_rate = 120 / 11, period_qty = 11, period_val = 120\<rparr> \<and>
   stock_item None None 0 0 [txn_of d1 10 100, txn_of d2 (- 4) a, txn_of d3 5 60] =
     Inr \<lparr>opening_qty = 0, opening_val = 0, tot_period_qty = 11, tot_period_val = 120,
          closing_qty = 11, closing_val = 120\<rparr>"
  by (simp add: stock_item_def opening_balance_as_of_def avg_rate_of_Inr rate_def
      period_step_def before_start_def after_end_def txn_of_def)

section \<open>Ledger of an unknown item\<close>

text \<open>
  C9. When no row of \<^verbatim>\<open>Master1\<close> has the requested code with master type 6, the
  ledger is the empty list, not an error, for every window.
\<close>

theorem unknown_item_empty_ledger:
  assumes "\<forall>r \<in> set (Master1 db). \<not> (Code r = master_code \<and> MasterType r = 6)"
  shows "get_stock_ledger_live today db master_code start_date end_date = Inr []"
proof -
  have "filter (\<lambda>r. Code r = master_code \<and> MasterType r = 6) (Master1 db) = []"
    using assms by (simp add: filter_empty_conv)
  then show ?thesis
    by (simp add: get_stock_ledger_live_def fetchone_def)
qed

theorem unknown_item_empty_ledger_witness:
  "get_stock_ledger_live 0 (db_one_item (Some 10) (Some 100) [txn_of 1 (- 4) 0]) 2
     (Some 1) None = Inr []"
proof -
  have h: "\<forall>r \<in> set (Master1 (db_one_item (Some 10) (Some 100) [txn_of 1 (- 4) 0])).
      \<not> (Code r = 2 \<and> MasterType r = 6)"
    by (simp add: db_one_item_def)
  show ?thesis
    using unknown_item_empty_ledger [OF h, of 0 "Some 1" None] by simp
qed

section \<open>Splitting the replay at a start date\<close>

lemma core_simps [simp]:
  "qty (core p) = qty p" "val (core p) = val p" "avg_rate (core p) = avg_rate p"
  by (simp_all add: core_def)

lemma core_period_next: "core (period_next p txn) = opening_next (core p) txn"
  by (simp add: period_next_eq opening_next_eq core_def)

lemma core_period_run_all:
  "core (period_run None None p txns) = foldl opening_next (core p) txns"
proof (induction txns arbitrary: p)
  case Nil
  show ?case by simp
next
  case (Cons txn txns)
  show ?case
    using Cons.IH [of "period_next p txn"]
    by (simp add: before_start_def after_end_def core_period_next)
qed

lemma period_run_from_start:
  "\<forall>txn \<in> set txns. d \<le> Date txn \<Longrightarrow>
     period_run (Some d) None p txns = period_run None None p txns"
proof (induction txns arbitrary: p)
  case Nil
  show ?case by simp
next
  case (Cons txn txns)
  then show ?case
    by (simp add: before_start_def after_end_def)
qed

lemma period_run_skips_earlier:
  "sorted (map Date txns) \<Longrightarrow>
     period_run (Some d) None p txns =
       period_run None None p (dropWhile (\<lambda>txn. Date txn < d) txns)"
proof (induction txns)
  case Nil
  show ?case by simp
next
  case (Cons txn txns)
  show ?case
  proof (cases "Date txn < d")
    case True
    with Cons show ?thesis
      by (simp add: before_start_def)
  next
    case False
    with Cons.prems have "\<forall>t \<in> set (txn # txns). d \<le> Date t"
      by auto
    from period_run_from_start [OF this] False show ?thesis
      by simp
  qed
qed

lemma opening_run_takeWhile:
  "opening_run d s txns = foldl opening_next s (takeWhile (\<lambda>txn. Date txn < d) txns)"
  by (induction txns arbitrary: s) (simp_all add: not_less)

lemma rate_ok_opening_next: "rate_ok s \<Longrightarrow> rate_ok (opening_next s txn)"
  by (simp add: rate_ok_def opening_next_eq)

lemma rate_ok_foldl: "rate_ok s \<Longrightarrow> rate_ok (foldl opening_next s txns)"
  by (induction txns arbitrary: s) (simp_all add: rate_ok_opening_next)

lemma stock_item_eq:
  "stock_item sd ed oq ov txns =
     (let ob = (case sd of None \<Rightarrow> (oq, ov)
                | Some d \<Rightarrow>
                    (qty (opening_run d \<lparr>qty = oq, val = ov, avg_rate = rate ov oq\<rparr> txns),
                     val (opening_run d \<lparr>qty = oq, val = ov, avg_rate = rate ov oq\<rparr> txns)));
          s = period_run sd ed
                \<lparr>qty = fst ob, val = snd ob, avg_rate = rate (snd ob) (fst ob),
                 period_qty = 0, period_val = 0\<rparr> txns
      in Inr \<lparr>opening_qty = fst ob, opening_val = snd ob,
              tot_period_qty = period_qty s, tot_period_val = period_val s,
              closing_qty = qty s, closing_val = val s\<rparr>)"
  by (simp add: stock_item_def opening_balance_as_of_Inr avg_rate_of_Inr period_loop_Inr
      Let_def split: option.splits)

lemma window_split:
  assumes "sorted (map Date txns)" and "rate_ok s"
  shows "core (period_run (Some d) None
           \<lparr>qty = qty (opening_run d s txns), val = val (opening_run d s txns),
            avg_rate = rate (val (opening_run d s txns)) (qty (opening_run d s txns)),
            period_qty = 0, period_val = 0\<rparr> txns) =
         foldl opening_next s txns"
proof -
  let ?pre = "takeWhile (\<lambda>txn. Date txn < d) txns"
  let ?post = "dropWhile (\<lambda>txn. Date txn < d) txns"
  let ?s1 = "opening_run d s txns"
  have s1: "?s1 = foldl opening_next s ?pre"
    by (rule opening_run_takeWhile)
  have "rate_ok ?s1"
    unfolding s1 using assms(2) by (rule rate_ok_foldl)
  then have c: "core \<lparr>qty = qty ?s1, val = val ?s1, avg_rate = rate (val ?s1) (qty ?s1),
      period_qty = 0, period_val = 0\<rparr> = ?s1"
    by (simp add: rate_ok_def core_def)
  have "core (period_run (Some d) None
           \<lparr>qty = qty ?s1, val = val ?s1, avg_rate = rate (val ?s1) (qty ?s1),
            period_qty = 0, period_val = 0\<rparr> txns) = foldl opening_next ?s1 ?post"
    unfolding period_run_skips_earlier [OF assms(1)] core_period_run_all c ..
  also have "\<dots> = foldl opening_next s (?pre @ ?post)"
    unfolding s1 by (simp only: foldl_append)
  finally show ?thesis by (simp only: takeWhile_dropWhile_id)
qed

text \<open>
  C5. For every opening balance, every sequence of transactions sorted ascending by
  date and every date \<open>d\<close>, the replay of an item with no window bounds and the replay
  with the window starting at \<open>d\<close> (no end) both return, with the same closing quantity
  and the same closing value.
\<close>

theorem window_decomposition:
  assumes "sorted (map Date txns)"
  shows "\<exists>t1 t2. stock_item None None oq ov txns = Inr t1 \<and>
           stock_item (Some d) None oq ov txns = Inr t2 \<and>
           closing_qty t1 = closing_qty t2 \<and> closing_val t1 = closing_val t2"
proof -
  let ?s = "\<lparr>qty = oq, val = ov, avg_rate = rate ov oq\<rparr>"
  let ?p = "\<lparr>qty = oq, val = ov, avg_rate = rate ov oq, period_qty = 0, period_val = 0\<rparr>"
  let ?p2 = "\<lparr>qty = qty (opening_run d ?s txns), val = val (opening_run d ?s txns),
      avg_rate = rate (val (opening_run d ?s txns)) (qty (opening_run d ?s txns)),
      period_qty = 0, period_val = 0\<rparr>"
  have ok: "rate_ok ?s"
    by (simp add: rate_ok_def)
  have "core (period_run None None ?p txns) = foldl opening_next (core ?p) txns"
    by (rule core_period_run_all)
  moreover have "core ?p = ?s"
    by (simp add: core_def)
  ultimately have "core (period_run None None ?p txns) =
      core (period_run (Some d) None ?p2 txns)"
    using window_split [OF assms ok, of d] by simp
  then have "qty (core (period_run None None ?p txns)) =
        qty (core (period_run (Some d) None ?p2 txns)) \<and>
      val (core (period_run None None ?p txns)) =
        val (core (period_run (Some d) None ?p2 txns))"
    by simp
  then show ?thesis
    by (simp add: stock_item_eq Let_def)
qed

theorem window_decomposition_witness:
  "\<exists>t1 t2. stock_item None None 0 0 [txn_of 1 10 100, txn_of 2 (- 4) 0, txn_of 3 5 60] = Inr t1 \<and>
           stock_item (Some 2) None 0 0 [txn_of 1 10 100, txn_of 2 (- 4) 0, txn_of 3 5 60] = Inr t2 \<and>
           closing_qty t1 = closing_qty t2 \<and> closing_val t1 = closing_val t2"
proof -
  have h: "sorted (map Date [txn_of 1 10 100, txn_of 2 (- 4) 0, txn_of 3 5 60])"
    by (simp add: txn_of_def)
  show ?thesis
    using window_decomposition [OF h] .
qed

section \<open>Rows of the ledger\<close>

lemma ledger_loop_rows:
  "ledger_loop idx s txns = Inr rows \<Longrightarrow>
     length rows = length txns \<and> filter (\<lambda>r. vchno r = OpeningBalance) rows = []"
proof (induction txns arbitrary: idx s rows)
  case Nil
  then show ?case by simp
next
  case (Cons txn txns)
  obtain rest where rest: "ledger_loop (idx + 1) (ledger_next s txn) txns = Inr rest"
    using ledger_loop_Inr by blast
  with Cons.prems have rows: "rows = txn_row idx s (ledger_next s txn) txn # rest"
    by (simp add: ledger_step_Inr)
  have "vchno (txn_row idx s (ledger_next s txn) txn) \<noteq> OpeningBalance"
    by (simp add: txn_row_def split: option.splits)
  with Cons.IH [OF rest] rows show ?case by simp
qed

text \<open>
  C6, as the code has it. For an item of the catalog, the ledger has one row for each
  transaction in the window, plus the opening row exactly when the opening quantity or
  the opening value of the window is greater than zero. \<open>oq\<close> and \<open>ov\<close> are that
  opening balance: the stored one, advanced to the start date when one is given.
\<close>

theorem ledger_row_count:
  assumes "filter (\<lambda>r. Code r = c \<and> MasterType r = 6) (Master1 db) \<noteq> []"
  shows "\<exists>oq ov rows.
           opening_balance_as_of sd (folio_value (folio_query db c 6) D1)
             (folio_value (folio_query db c 6) D3) (tran_query db c None) = Inr (oq, ov) \<and>
           get_stock_ledger_live today db c sd ed = Inr rows \<and>
           length rows = length (filter (in_window sd ed) (tran_query db c None)) +
             (if 0 < oq \<or> 0 < ov then 1 else 0) \<and>
           length (filter (\<lambda>r. vchno r = OpeningBalance) rows) =
             (if 0 < oq \<or> 0 < ov then 1 else 0)"
proof -
  obtain m where m: "fetchone (filter (\<lambda>r. Code r = c \<and> MasterType r = 6) (Master1 db)) =
      Some m"
    using assms
    by (cases "filter (\<lambda>r. Code r = c \<and> MasterType r = 6) (Master1 db)")
      (simp_all add: fetchone_def)
  obtain oq ov where o: "opening_balance_as_of sd (folio_value (folio_query db c 6) D1)
      (folio_value (folio_query db c 6) D3) (tran_query db c None) = Inr (oq, ov)"
    using opening_balance_as_of_ex by blast
  let ?txns = "filter (in_window sd ed) (tran_query db c None)"
  obtain rows where r: "ledger_loop 1 \<lparr>qty = oq, val = ov, avg_rate = rate ov oq\<rparr> ?txns =
      Inr rows"
    using ledger_loop_Inr by blast
  have l: "get_stock_ledger_live today db c sd ed =
      Inr (opening_rows today sd oq ov ?txns @ rows)"
    using m o r by (simp add: get_stock_ledger_live_def Let_def avg_rate_of_Inr)
  have n: "length (opening_rows today sd oq ov ?txns) = (if 0 < oq \<or> 0 < ov then 1 else 0)"
    "length (filter (\<lambda>r. vchno r = OpeningBalance) (opening_rows today sd oq ov ?txns)) =
      (if 0 < oq \<or> 0 < ov then 1 else 0)"
    by (simp_all add: opening_rows_def)
  have "length (opening_rows today sd oq ov ?txns @ rows) =
        length ?txns + (if 0 < oq \<or> 0 < ov then 1 else 0) \<and>
      length (filter (\<lambda>r. vchno r = OpeningBalance)
        (opening_rows today sd oq ov ?txns @ rows)) = (if 0 < oq \<or> 0 < ov then 1 else 0)"
    using ledger_loop_rows [OF r] n by simp
  with o l show ?thesis by blast
qed

theorem ledger_row_count_witness:
  "\<exists>rows. get_stock_ledger_live 0
       (db_one_item (Some 10) (Some 100) [txn_of 1 (- 4) 0, txn_of 3 5 60]) 1 (Some 2) None =
       Inr rows \<and> length rows = 2"
proof -
  let ?db = "db_one_item (Some 10) (Some 100) [txn_of 1 (- 4) 0, txn_of 3 5 60]"
  have h: "filter (\<lambda>r. Code r = 1 \<and> MasterType r = 6) (Master1 ?db) \<noteq> []"
    by (simp add: db_one_item_def)
  have o: "opening_balance_as_of (Some 2) (folio_value (folio_query ?db 1 6) D1)
      (folio_value (folio_query ?db 1 6) D3) (tran_query ?db 1 None) = Inr (6, 60)"
    by code_simp
  have w: "length (filter (in_window (Some 2) None) (tran_query ?db 1 None)) = 1"
    by code_simp
  show ?thesis
    using ledger_row_count [OF h, of "Some 2" 0 None] unfolding o w by auto
qed

text \<open>
  C6 as stated fails. A sale of 5 dated before the start leaves the opening quantity
  - 5 with value 0, a nonzero opening balance; no transaction is in the window; the claim
  counts one row, and the ledger is empty.
\<close>

theorem negative_opening_counterexample:
  "opening_balance_as_of (Some 2)
     (folio_value (folio_query (db_one_item None None [txn_of 1 (- 5) 0]) 1 6) D1)
     (folio_value (folio_query (db_one_item None None [txn_of 1 (- 5) 0]) 1 6) D3)
     (tran_query (db_one_item None None [txn_of 1 (- 5) 0]) 1 None) = Inr (- 5, 0) \<and>
   filter (in_window (Some 2) None)
     (tran_query (db_one_item None None [txn_of 1 (- 5) 0]) 1 None) = [] \<and>
   get_stock_ledger_live 0 (db_one_item None None [txn_of 1 (- 5) 0]) 1 (Some 2) None =
     Inr []"
  by code_simp

section \<open>Hiding items with a zero closing quantity\<close>

lemma stock_item_of_Inr: "stock_item_of db sd ed item = Inr (totals_of db sd ed item)"
proof -
  obtain t where "stock_item_of db sd ed item = Inr t"
    unfolding stock_item_of_def Let_def using stock_item_Inr by blast
  then show ?thesis by (simp add: totals_of_def)
qed

lemma stock_report_loop_eq:
  "stock_report_loop db sd ed hide items =
     Inr (concat (map (\<lambda>item. stock_rows hide item (totals_of db sd ed item)) items))"
  by (induction items) (simp_all add: stock_item_of_Inr)

lemma concat_map_if:
  "concat (map (\<lambda>x. if P x then [f x] else []) xs) = map f (filter P xs)"
  by (induction xs) simp_all

text \<open>
  C7, as the code has it. With \<^verbatim>\<open>hide_zero_balance\<close> set, the report has the rows of
  exactly the items whose closing quantity, before rounding, is not zero, in the order
  of the catalog, whatever their activity in the period.
\<close>

theorem hide_zero_is_exact:
  "get_closing_stock_live db start_date end_date True =
     Inr (map (\<lambda>item. stock_row_of item (totals_of db start_date end_date item))
           (filter (\<lambda>item. closing_qty (totals_of db start_date end_date item) \<noteq> 0)
              (master_query db 6))) \<and>
   (\<forall>item. stock_item_of db start_date end_date item =
      Inr (totals_of db start_date end_date item))"
  by (simp add: get_closing_stock_live_def stock_report_loop_eq stock_rows_def
      concat_map_if stock_item_of_Inr)

theorem hide_zero_is_exact_witness:
  "get_closing_stock_live (db_one_item (Some 10) (Some 100) [txn_of 1 (- 10) 0])
     None None True = Inr [] \<and>
   tot_period_qty (totals_of (db_one_item (Some 10) (Some 100) [txn_of 1 (- 10) 0])
     None None \<lparr>Code = 1, Name = ''Widget'', MasterType = 6\<rparr>) = - 10"
proof -
  let ?db = "db_one_item (Some 10) (Some 100) [txn_of 1 (- 10) 0]"
  have e: "filter (\<lambda>item. closing_qty (totals_of ?db None None item) \<noteq> 0)
      (master_query ?db 6) = []"
    by code_simp
  have p: "tot_period_qty (totals_of ?db None None
      \<lparr>Code = 1, Name = ''Widget'', MasterType = 6\<rparr>) = - 10"
    by code_simp
  show ?thesis
    using hide_zero_is_exact [of ?db None None] p unfolding e by simp
qed

text \<open>
  C7 as stated fails. An item whose only transaction is a purchase of 1/1000 has the
  closing quantity 1/1000, which rounds to 0.00; its row is in the report, with closing
  quantity 0.
\<close>

theorem hide_zero_rounded_counterexample:
  "get_closing_stock_live (db_one_item None None [txn_of 1 (1 / 1000) 1]) None None True =
     Inr [\<lparr>item_name = ''Widget'', item_code = 1, opening_quantity = 0, opening_value = 0,
           transaction_quantity = 0, transaction_value = 1, closing_quantity = 0,
           closing_value = 1\<rparr>]"
  by code_simp

section \<open>The period value of a sale\<close>

text \<open>
  C2 at a failing input. An item holds 10 units worth 100 and sells all 10. The running
  value goes down by 10 * 10 = 100, to 0; the average rate is assigned 0 because the
  quantity is now 0; the period value is then reduced by 10 * 0 = 0. The report shows an
  opening value of 100, a closing value of 0 and a transaction value of 0.
\<close>

theorem period_value_after_sale_to_zero:
  "period_step (stock_period_of 10 100) (txn_of 1 (- 10) 0) =
     Inr \<lparr>qty = 0, val = 0, avg_rate = 0, period_qty = - 10, period_val = 0\<rparr> \<and>
   get_closing_stock_live (db_one_item (Some 10) (Some 100) [txn_of 1 (- 10) 0])
     None None False =
     Inr [\<lparr>item_name = ''Widget'', item_code = 1, opening_quantity = 10,
           opening_value = 100, transaction_quantity = - 10, transaction_value = 0,
           closing_quantity = 0, closing_value = 0\<rparr>]"
  by code_simp

section \<open>Stock report and ledger\<close>

text \<open>
  C3 at a failing input. An item holds 10 units worth 100, sells 10 and then 5 more.
  The stock report assigns the rate 0 after the first sale and values the second sale at
  0: closing quantity - 5, closing value 0. The ledger keeps the rate 10 after the first
  sale and values the second one at 50: its last row closes at quantity - 5, value - 50.
\<close>

theorem report_and_ledger_differ:
  "map_sum id (map closing_quantity)
     (get_closing_stock_live
        (db_one_item (Some 10) (Some 100) [txn_of 1 (- 10) 0, txn_of 2 (- 5) 0])
        None None False) = Inr [- 5] \<and>
   map_sum id (map closing_value)
     (get_closing_stock_live
        (db_one_item (Some 10) (Some 100) [txn_of 1 (- 10) 0, txn_of 2 (- 5) 0])
        None None False) = Inr [0] \<and>
   map_sum id (map closingqty)
     (get_stock_ledger_live 0
        (db_one_item (Some 10) (Some 100) [txn_of 1 (- 10) 0, txn_of 2 (- 5) 0])
        1 None None) = Inr [10, 0, - 5] \<and>
   map_sum id (map closingamt)
     (get_stock_ledger_live 0
        (db_one_item (Some 10) (Some 100) [txn_of 1 (- 10) 0, txn_of 2 (- 5) 0])
        1 None None) = Inr [100, 0, - 50]"
  by code_simp

section \<open>Rounding in the balance report\<close>

text \<open>
  C8 at a failing input. An account with the stored opening balance 0.125 and one
  transaction of 0.125, reported with no window bounds: the opening balance and the
  transaction amount are 0.125 as they are, which is not a multiple of 0.01 (it rounds
  to 0.12); only the closing balance is rounded.
\<close>

theorem balance_fields_not_rounded:
  "get_closing_balance_live (db_one_account (Some (1 / 8)) [txn_of 1 (1 / 8) 0]) None None =
     [\<lparr>account_name = ''Cash'', account_code = 1, opening_balance = 1 / 8,
       transaction_amount = 1 / 8, closing_balance = 1 / 4\<rparr>] \<and>
   round2 (1 / 8) = 3 / 25"
  by code_simp

end
